theory Spec2Isabelle
  imports Complex_Main "HOL-Library.Multiset"
begin

section \<open>JavaScript numbers\<close>

text \<open>
  The scores of the matching code are JavaScript numbers: IEEE 754 binary64 values. A
  number is \<open>NaN\<close>, an infinity (\<open>Infinity True\<close> is the positive one) or a finite value
  \<open>Num x\<close>, where \<open>x\<close> is the real that the double denotes. Every arithmetic operation
  computes the exact real result and rounds it to the nearest double, ties to even
  (\<open>rnd\<close>), with gradual underflow below \<open>2 ^ -1022\<close>; a rounded result of magnitude
  \<open>2 ^ 1024\<close> or more is an infinity (\<open>double_of\<close>). A decimal literal of the source
  denotes the double nearest to it (\<open>lit\<close>). The sign of a zero is not modelled: it shows
  only under division by zero and the code divides by the literal \<open>100\<close> only.
\<close>

datatype jsnum = NaN | Infinity bool | Num real

definition round_even :: "real \<Rightarrow> int" where
  "round_even y =
     (let f = \<lfloor>y\<rfloor>
      in if y - of_int f < 1 / 2 then f
         else if 1 / 2 < y - of_int f then f + 1
         else if even f then f else f + 1)"

text \<open>The exponent of the binade of \<open>x\<close>, and the spacing of the doubles in it.\<close>

definition binade :: "real \<Rightarrow> int" where
  "binade x = max \<lfloor>log 2 \<bar>x\<bar>\<rfloor> (- 1022)"

definition ulp :: "real \<Rightarrow> real" where
  "ulp x = 2 powr of_int (binade x - 52)"

definition rnd :: "real \<Rightarrow> real" where
  "rnd x = (if x = 0 then 0 else of_int (round_even (x / ulp x)) * ulp x)"

definition double_of :: "real \<Rightarrow> jsnum" where
  "double_of x = (let r = rnd x in if 2 ^ 1024 \<le> \<bar>r\<bar> then Infinity (0 < r) else Num r)"

definition lit :: "real \<Rightarrow> jsnum" where
  "lit x = double_of x"

fun js_add :: "jsnum \<Rightarrow> jsnum \<Rightarrow> jsnum" where
  "js_add (Num a) (Num b) = double_of (a + b)"
| "js_add (Infinity s) (Infinity t) = (if s = t then Infinity s else NaN)"
| "js_add (Infinity s) (Num b) = Infinity s"
| "js_add (Num a) (Infinity t) = Infinity t"
| "js_add NaN b = NaN"
| "js_add a NaN = NaN"

fun js_sub :: "jsnum \<Rightarrow> jsnum \<Rightarrow> jsnum" where
  "js_sub (Num a) (Num b) = double_of (a - b)"
| "js_sub (Infinity s) (Infinity t) = (if s = t then NaN else Infinity s)"
| "js_sub (Infinity s) (Num b) = Infinity s"
| "js_sub (Num a) (Infinity t) = Infinity (\<not> t)"
| "js_sub NaN b = NaN"
| "js_sub a NaN = NaN"

fun js_mul :: "jsnum \<Rightarrow> jsnum \<Rightarrow> jsnum" where
  "js_mul (Num a) (Num b) = double_of (a * b)"
| "js_mul (Infinity s) (Infinity t) = Infinity (s = t)"
| "js_mul (Infinity s) (Num b) = (if b = 0 then NaN else Infinity (s = (0 < b)))"
| "js_mul (Num a) (Infinity t) = (if a = 0 then NaN else Infinity (t = (0 < a)))"
| "js_mul NaN b = NaN"
| "js_mul a NaN = NaN"

text \<open>A zero divisor is taken as the positive zero.\<close>

fun js_div :: "jsnum \<Rightarrow> jsnum \<Rightarrow> jsnum" where
  "js_div (Num a) (Num b) =
     (if b = 0 then (if a = 0 then NaN else Infinity (0 < a)) else double_of (a / b))"
| "js_div (Infinity s) (Infinity t) = NaN"
| "js_div (Infinity s) (Num b) = Infinity (s = (0 \<le> b))"
| "js_div (Num a) (Infinity t) = Num 0"
| "js_div NaN b = NaN"
| "js_div a NaN = NaN"

fun js_abs :: "jsnum \<Rightarrow> jsnum" where
  "js_abs (Num a) = Num \<bar>a\<bar>"
| "js_abs (Infinity s) = Infinity True"
| "js_abs NaN = NaN"

fun js_max :: "jsnum \<Rightarrow> jsnum \<Rightarrow> jsnum" where
  "js_max (Num a) (Num b) = Num (max a b)"
| "js_max (Infinity s) (Infinity t) = Infinity (s \<or> t)"
| "js_max (Infinity s) (Num b) = (if s then Infinity True else Num b)"
| "js_max (Num a) (Infinity t) = (if t then Infinity True else Num a)"
| "js_max NaN b = NaN"
| "js_max a NaN = NaN"

fun js_gt :: "jsnum \<Rightarrow> jsnum \<Rightarrow> bool" where
  "js_gt (Num a) (Num b) = (a > b)"
| "js_gt (Infinity s) (Infinity t) = (s \<and> \<not> t)"
| "js_gt (Infinity s) (Num b) = s"
| "js_gt (Num a) (Infinity t) = (\<not> t)"
| "js_gt NaN b = False"
| "js_gt a NaN = False"

fun js_ge :: "jsnum \<Rightarrow> jsnum \<Rightarrow> bool" where
  "js_ge (Num a) (Num b) = (a \<ge> b)"
| "js_ge (Infinity s) (Infinity t) = (s \<or> \<not> t)"
| "js_ge (Infinity s) (Num b) = s"
| "js_ge (Num a) (Infinity t) = (\<not> t)"
| "js_ge NaN b = False"
| "js_ge a NaN = False"

text \<open>
  Reading a numeric property that may be absent: \<open>undefined\<close> converts to \<open>NaN\<close>. The
  numbers stored in a document are finite doubles.
\<close>

definition to_number :: "real option \<Rightarrow> jsnum" where
  "to_number v = (case v of None \<Rightarrow> NaN | Some x \<Rightarrow> Num x)"

text \<open>\<open>v || d\<close> on a numeric property: \<open>undefined\<close> and \<open>0\<close> are falsy.\<close>

definition or_default :: "real option \<Rightarrow> real \<Rightarrow> real" where
  "or_default v d = (case v of None \<Rightarrow> d | Some x \<Rightarrow> (if x = 0 then d else x))"

datatype error = TypeError


section \<open>The rate limiter (middleware/auth.js)\<close>

text \<open>
  \<open>rateLimiter(maxRequests, windowMs)\<close> closes over the map \<open>requests\<close> from a key to
  the array of admitted timestamps. The middleware it returns is modelled with the map
  passed in and returned; \<open>now\<close> is the value of \<open>Date.now()\<close> in milliseconds.
\<close>

record request =
  ip :: string
  req_user :: "string option"

datatype outcome = Next | TooManyRequests int

definition request_key :: "request \<Rightarrow> string" where
  "request_key req = ip req @ (case req_user req of None \<Rightarrow> [] | Some i \<Rightarrow> i)"

definition rateLimiter ::
  "int \<Rightarrow> int \<Rightarrow> (string \<rightharpoonup> int list) \<Rightarrow> request \<Rightarrow> int \<Rightarrow> outcome \<times> (string \<rightharpoonup> int list)" where
  "rateLimiter maxRequests windowMs requests req now =
     (let key = request_key req;
          windowStart = now - windowMs;
          userRequests = (case requests key of None \<Rightarrow> [] | Some ts \<Rightarrow> ts);
          validRequests = filter (\<lambda>time. time > windowStart) userRequests
      in if int (length validRequests) \<ge> maxRequests
         then (TooManyRequests (- ((- windowMs) div 1000)), requests)
         else (Next, requests(key \<mapsto> validRequests @ [now])))"


section \<open>User documents\<close>

text \<open>
  The fields of a user document that the matching code reads. A field that may be
  \<open>undefined\<close> is an \<open>option\<close>; a flag that the code only tests for truthiness is a
  \<open>bool\<close> (an absent flag is falsy).
\<close>

record dealBreakers_obj =
  db_smoking :: bool
  db_hasKids :: bool
  db_pets :: bool

record lifestyle_obj =
  ls_smoking :: bool

record preferences_obj =
  maxDistance :: real

record user =
  uid :: string
  personalityTraits :: "(string \<rightharpoonup> real) option"
  lifestyle :: "lifestyle_obj option"
  dealBreakers :: "dealBreakers_obj option"
  hasKids :: bool
  hasPets :: bool
  subscriptionTier :: "string option"
  preferences :: "preferences_obj option"


section \<open>MatchingService (services/MatchingService.js)\<close>

text \<open>
  The result object \<open>{ compatibility, aiInsight }\<close> of \<open>calculateCompatibility\<close>;
  \<open>aiInsight = None\<close> is \<open>null\<close>.
\<close>

record compat =
  compatibility :: jsnum
  aiInsight :: "string option"

text \<open>
  The receiver \<open>this\<close>. \<open>calculateCompatibility\<close> calls \<open>this.analyzeLifestyle\<close>, a
  property looked up on the receiver at run time: \<open>None\<close> when the receiver has no
  such method. \<open>insight\<close> stands for the text-generation service behind
  \<open>getAICompatibilityInsight\<close>: \<open>None\<close> is the \<open>null\<close> its \<open>catch\<close> branch returns.
\<close>

record service =
  analyzeLifestyle :: "(user \<Rightarrow> user \<Rightarrow> error + jsnum) option"
  insight :: "user \<Rightarrow> user \<Rightarrow> jsnum \<Rightarrow> string option"

text \<open>
  An instance of \<open>class MatchingService\<close> as the source declares it: the class body has
  the methods \<open>calculateCompatibility\<close>, \<open>analyzePersonalityTraits\<close>,
  \<open>checkDealBreakers\<close>, \<open>getAICompatibilityInsight\<close> and \<open>findMatches\<close>, and no
  \<open>analyzeLifestyle\<close>.
\<close>

definition MatchingService :: "(user \<Rightarrow> user \<Rightarrow> jsnum \<Rightarrow> string option) \<Rightarrow> service" where
  "MatchingService ai = \<lparr>analyzeLifestyle = None, insight = ai\<rparr>"

definition weights :: "(string \<times> real) list" where
  "weights = [(''openness'', 0.15), (''conscientiousness'', 0.20), (''extraversion'', 0.18),
              (''agreeableness'', 0.22), (''neuroticism'', 0.15), (''emotionalIntelligence'', 0.10)]"

text \<open>The body of the \<open>for (const trait in weights)\<close> loop, with \<open>score\<close> threaded.\<close>

fun traits_loop :: "(string \<rightharpoonup> real) \<Rightarrow> (string \<rightharpoonup> real) \<Rightarrow> (string \<times> real) list \<Rightarrow> jsnum \<Rightarrow> jsnum" where
  "traits_loop traits1 traits2 [] score = score"
| "traits_loop traits1 traits2 ((trait, w) # ws) score =
     (let diff = js_abs (js_sub (to_number (traits1 trait)) (to_number (traits2 trait)))
      in traits_loop traits1 traits2 ws
           (js_add score (js_mul (js_sub (Num 1) (js_div diff (Num 100))) (lit w))))"

text \<open>Indexing an \<open>undefined\<close> traits object throws a TypeError.\<close>

definition analyzePersonalityTraits ::
  "(string \<rightharpoonup> real) option \<Rightarrow> (string \<rightharpoonup> real) option \<Rightarrow> error + jsnum" where
  "analyzePersonalityTraits traits1 traits2 =
     (case traits1 of None \<Rightarrow> Inl TypeError
      | Some t1 \<Rightarrow>
        (case traits2 of None \<Rightarrow> Inl TypeError
         | Some t2 \<Rightarrow> Inr (js_max (Num 0) (js_mul (traits_loop t1 t2 weights (Num 0)) (Num 100)))))"

definition no_dealBreakers :: dealBreakers_obj where
  "no_dealBreakers = \<lparr>db_smoking = False, db_hasKids = False, db_pets = False\<rparr>"

definition lifestyle_smoking :: "user \<Rightarrow> bool" where
  "lifestyle_smoking u = (case lifestyle u of None \<Rightarrow> False | Some l \<Rightarrow> ls_smoking l)"

definition checkDealBreakers :: "user \<Rightarrow> user \<Rightarrow> jsnum" where
  "checkDealBreakers user1 user2 =
     (let dealBreakers1 = (case dealBreakers user1 of None \<Rightarrow> no_dealBreakers | Some d \<Rightarrow> d);
          dealBreakers2 = (case dealBreakers user2 of None \<Rightarrow> no_dealBreakers | Some d \<Rightarrow> d)
      in if db_smoking dealBreakers1 \<and> lifestyle_smoking user2 then Num 0
         else if db_smoking dealBreakers2 \<and> lifestyle_smoking user1 then Num 0
         else if db_hasKids dealBreakers1 \<and> hasKids user2 then Num 0
         else if db_hasKids dealBreakers2 \<and> hasKids user1 then Num 0
         else if db_pets dealBreakers1 \<and> hasPets user2 then Num 0
         else if db_pets dealBreakers2 \<and> hasPets user1 then Num 0
         else Num 100)"

definition getAICompatibilityInsight :: "service \<Rightarrow> user \<Rightarrow> user \<Rightarrow> jsnum \<Rightarrow> string option" where
  "getAICompatibilityInsight this user1 user2 score = insight this user1 user2 score"

text \<open>The weighted sum of line 123.\<close>

definition blend :: "jsnum \<Rightarrow> jsnum \<Rightarrow> jsnum \<Rightarrow> jsnum" where
  "blend personalityScore lifestyleScore dealBreakerScore =
     js_add (js_add (js_mul personalityScore (lit 0.6)) (js_mul lifestyleScore (lit 0.3)))
            (js_mul dealBreakerScore (lit 0.1))"

text \<open>
  Calling \<open>this.analyzeLifestyle\<close> when the receiver has no such property throws a
  TypeError (\<open>undefined\<close> is not a function); an exception of a callee propagates.
\<close>

definition calculateCompatibility :: "service \<Rightarrow> user \<Rightarrow> user \<Rightarrow> error + compat" where
  "calculateCompatibility this user1 user2 =
     (case analyzePersonalityTraits (personalityTraits user1) (personalityTraits user2) of
        Inl e \<Rightarrow> Inl e
      | Inr personalityScore \<Rightarrow>
        (case analyzeLifestyle this of
           None \<Rightarrow> Inl TypeError
         | Some method \<Rightarrow>
           (case method user1 user2 of
              Inl e \<Rightarrow> Inl e
            | Inr lifestyleScore \<Rightarrow>
              (let dealBreakerScore = checkDealBreakers user1 user2;
                   compatibility = blend personalityScore lifestyleScore dealBreakerScore
               in if subscriptionTier user1 \<noteq> Some ''free''
                  then Inr \<lparr>compatibility = compatibility,
                            aiInsight = getAICompatibilityInsight this user1 user2 compatibility\<rparr>
                  else Inr \<lparr>compatibility = compatibility, aiInsight = None\<rparr>))))"

text \<open>
  One element of the array \<open>matches\<close> that \<open>findMatches\<close> builds:
  \<open>{ user, compatibility, aiInsight }\<close>.
\<close>

record found =
  found_user :: user
  found_compatibility :: jsnum
  found_aiInsight :: "string option"

text \<open>
  The \<open>for (const potential of potentialMatches)\<close> loop with the array \<open>matches\<close>
  threaded; \<open>push\<close> appends. A rejected \<open>calculateCompatibility\<close> ends the loop.
\<close>

fun findMatches_loop :: "service \<Rightarrow> user \<Rightarrow> user list \<Rightarrow> found list \<Rightarrow> error + found list" where
  "findMatches_loop this u [] matches = Inr matches"
| "findMatches_loop this u (potential # rest) matches =
     (case calculateCompatibility this u potential of
        Inl e \<Rightarrow> Inl e
      | Inr c \<Rightarrow>
        (if js_gt (compatibility c) (Num 70)
         then findMatches_loop this u rest
                (matches @ [\<lparr>found_user = potential, found_compatibility = compatibility c,
                             found_aiInsight = aiInsight c\<rparr>])
         else findMatches_loop this u rest matches))"

text \<open>The comparator \<open>(a, b) => b.compatibility - a.compatibility\<close>.\<close>

definition by_compatibility :: "found \<Rightarrow> found \<Rightarrow> jsnum" where
  "by_compatibility a b = js_sub (found_compatibility b) (found_compatibility a)"

text \<open>
  \<open>Array.prototype.sort\<close> is stable: an element moves behind another one only when the
  comparator returns a number greater than zero for the pair (a \<open>NaN\<close> counts as zero).
  The sorted order is computed by insertion from the right.
\<close>

fun sort_insert :: "('a \<Rightarrow> 'a \<Rightarrow> jsnum) \<Rightarrow> 'a \<Rightarrow> 'a list \<Rightarrow> 'a list" where
  "sort_insert cmp x [] = [x]"
| "sort_insert cmp x (y # ys) =
     (if js_gt (cmp x y) (Num 0) then y # sort_insert cmp x ys else x # y # ys)"

definition array_sort :: "('a \<Rightarrow> 'a \<Rightarrow> jsnum) \<Rightarrow> 'a list \<Rightarrow> 'a list" where
  "array_sort cmp xs = foldr (sort_insert cmp) xs []"

text \<open>\<open>xs.slice(0, end)\<close>: a negative \<open>end\<close> counts from the end of the array.\<close>

definition slice0 :: "'a list \<Rightarrow> int \<Rightarrow> 'a list" where
  "slice0 xs end =
     (let len = int (length xs);
          final = (if end < 0 then max (len + end) 0 else min end len)
      in take (nat final) xs)"

text \<open>
  \<open>findMatches(userId, limit = 10)\<close>. The two database reads are inputs: \<open>fetched\<close> is
  the result of \<open>User.findById(userId)\<close> (\<open>None\<close> for \<open>null\<close>) and \<open>potentialMatches\<close>
  the result of the \<open>User.find\<close> query. Building the query reads \<open>user.location\<close> and
  \<open>user.preferences.maxDistance\<close>, which throws on a missing document or missing
  preferences. \<open>limit = None\<close> is a call without the second argument.
\<close>

definition findMatches ::
  "service \<Rightarrow> user option \<Rightarrow> user list \<Rightarrow> int option \<Rightarrow> error + found list" where
  "findMatches this fetched potentialMatches limit =
     (let bound = (case limit of None \<Rightarrow> 10 | Some l \<Rightarrow> l)
      in case fetched of
           None \<Rightarrow> Inl TypeError
         | Some u \<Rightarrow>
           (case preferences u of
              None \<Rightarrow> Inl TypeError
            | Some _ \<Rightarrow>
              (case findMatches_loop this u potentialMatches [] of
                 Inl e \<Rightarrow> Inl e
               | Inr matches \<Rightarrow> Inr (slice0 (array_sort by_compatibility matches) bound))))"


section \<open>AIService (services/AIService.js)\<close>

definition weights_ai :: "(string \<times> real) list" where
  "weights_ai = [(''openness'', 0.15), (''conscientiousness'', 0.20), (''extraversion'', 0.18),
                 (''agreeableness'', 0.25), (''neuroticism'', 0.12), (''emotionalIntelligence'', 0.10)]"

text \<open>The loop over \<open>Object.entries(weights)\<close>, with \<open>totalScore\<close> threaded.\<close>

fun personality_loop :: "(string \<rightharpoonup> real) \<Rightarrow> (string \<rightharpoonup> real) \<Rightarrow> (string \<times> real) list \<Rightarrow> jsnum \<Rightarrow> jsnum" where
  "personality_loop traits1 traits2 [] totalScore = totalScore"
| "personality_loop traits1 traits2 ((trait, weight) # ws) totalScore =
     (let diff = js_abs (js_sub (Num (or_default (traits1 trait) 50))
                                (Num (or_default (traits2 trait) 50)));
          score = js_max (Num 0) (js_sub (Num 100) (js_mul diff (Num 2)))
      in personality_loop traits1 traits2 ws (js_add totalScore (js_mul score (lit weight))))"

definition calculatePersonalityCompatibility ::
  "(string \<rightharpoonup> real) option \<Rightarrow> (string \<rightharpoonup> real) option \<Rightarrow> error + jsnum" where
  "calculatePersonalityCompatibility traits1 traits2 =
     (case traits1 of None \<Rightarrow> Inl TypeError
      | Some t1 \<Rightarrow>
        (case traits2 of None \<Rightarrow> Inl TypeError
         | Some t2 \<Rightarrow> Inr (personality_loop t1 t2 weights_ai (Num 0))))"


section \<open>The action route (routes/matches.js)\<close>

text \<open>
  A match document. The actions and the status are the strings the route stores;
  an action not yet given is \<open>None\<close>. \<open>compatibilityScore\<close> holds what the route
  assigns to it: the awaited result of \<open>calculateCompatibility\<close>.
\<close>

record match_doc =
  user1 :: string
  user2 :: string
  compatibilityScore :: compat
  matchType :: string
  user1Action :: "string option"
  user2Action :: "string option"
  status :: string

text \<open>
  The operand of a relational operator is converted to a number; an object that is not a
  number converts to \<open>NaN\<close>.
\<close>

datatype jsval = JNumber jsnum | JObject compat

fun js_to_number :: "jsval \<Rightarrow> jsnum" where
  "js_to_number (JNumber n) = n"
| "js_to_number (JObject _) = NaN"

text \<open>The conditional chain of lines 48 to 50.\<close>

definition matchTypeOf :: "jsval \<Rightarrow> string" where
  "matchTypeOf score =
     (if js_ge (js_to_number score) (Num 90) then ''perfect''
      else if js_ge (js_to_number score) (Num 80) then ''excellent''
      else if js_ge (js_to_number score) (Num 70) then ''good''
      else ''potential'')"

text \<open>
  \<open>new Match({ user1, user2, compatibilityScore, matchType })\<close> for the awaited result
  \<open>compatibilityScore\<close>. The schema of the Match model is not part of the sources: the
  document it yields for the fields not given, \<open>defaults\<close>, is a parameter.
\<close>

definition newMatch :: "match_doc \<Rightarrow> string \<Rightarrow> string \<Rightarrow> compat \<Rightarrow> match_doc" where
  "newMatch defaults userId targetUserId score =
     defaults\<lparr>user1 := userId, user2 := targetUserId, compatibilityScore := score,
              matchType := matchTypeOf (JObject score)\<rparr>"

text \<open>Lines 54 to 66: record the action of \<open>userId\<close>, then derive the status.\<close>

definition applyAction :: "match_doc \<Rightarrow> string \<Rightarrow> string \<Rightarrow> match_doc" where
  "applyAction m userId action =
     (let m1 = (if user1 m = userId then m\<lparr>user1Action := Some action\<rparr>
                else m\<lparr>user2Action := Some action\<rparr>)
      in if user1Action m1 = Some ''like'' \<and> user2Action m1 = Some ''like''
         then m1\<lparr>status := ''mutual''\<rparr>
         else if action = ''pass'' then m1\<lparr>status := ''rejected''\<rparr>
         else m1)"

text \<open>
  The route calls \<open>calculateCompatibility(userId, targetUserId)\<close> with the two
  identifiers where the method reads user documents. An identifier has none of the
  properties the method reads: each of them is \<open>undefined\<close>.
\<close>

definition document_of_id :: "string \<Rightarrow> user" where
  "document_of_id i =
     \<lparr>uid = i, personalityTraits = None, lifestyle = None, dealBreakers = None,
      hasKids = False, hasPets = False, subscriptionTier = None, preferences = None\<rparr>"

text \<open>
  Lines 25 to 68 of the handler, up to the first \<open>match.save()\<close>. \<open>existing\<close> is the
  result of \<open>Match.findOne\<close> for the pair and \<open>this\<close> the receiver of the call on line
  43. The result is the document that is saved, or the failure that is answered: 400
  for an action on oneself, 500 from the \<open>catch\<close> block when a call throws.
\<close>

datatype failure = BadRequest | ServerError

definition action_route ::
  "service \<Rightarrow> match_doc \<Rightarrow> match_doc option \<Rightarrow> string \<Rightarrow> string \<Rightarrow> string \<Rightarrow> failure + match_doc" where
  "action_route this defaults existing userId targetUserId action =
     (if userId = targetUserId then Inl BadRequest
      else case existing of
             Some m \<Rightarrow> Inr (applyAction m userId action)
           | None \<Rightarrow>
             (case calculateCompatibility this (document_of_id userId) (document_of_id targetUserId) of
                Inl e \<Rightarrow> Inl ServerError
              | Inr score \<Rightarrow> Inr (applyAction (newMatch defaults userId targetUserId score) userId action)))"


section \<open>Notions of the specification\<close>

text \<open>
  A veto is triggered when a deal-breaker flag declared by one party meets the
  corresponding fact of the other: smoking with \<open>lifestyle.smoking\<close>, \<open>hasKids\<close> with
  \<open>hasKids\<close>, \<open>pets\<close> with \<open>hasPets\<close>.
\<close>

definition declares :: "user \<Rightarrow> (dealBreakers_obj \<Rightarrow> bool) \<Rightarrow> bool" where
  "declares u flag = (case dealBreakers u of None \<Rightarrow> False | Some d \<Rightarrow> flag d)"

definition veto_triggered :: "user \<Rightarrow> user \<Rightarrow> bool" where
  "veto_triggered a b \<longleftrightarrow>
     declares a db_smoking \<and> lifestyle_smoking b \<or> declares b db_smoking \<and> lifestyle_smoking a
   \<or> declares a db_hasKids \<and> hasKids b \<or> declares b db_hasKids \<and> hasKids a
   \<or> declares a db_pets \<and> hasPets b \<or> declares b db_pets \<and> hasPets a"

text \<open>
  The evaluated candidates with a final score above 70, in the order of the pool: the
  entry of one candidate (none when its score is not above 70), and the entries of a pool.
\<close>

definition retained_entry :: "service \<Rightarrow> user \<Rightarrow> user \<Rightarrow> found list" where
  "retained_entry this u p =
     (case calculateCompatibility this u p of
        Inl _ \<Rightarrow> []
      | Inr c \<Rightarrow> (if js_gt (compatibility c) (Num 70)
                  then [\<lparr>found_user = p, found_compatibility = compatibility c,
                          found_aiInsight = aiInsight c\<rparr>]
                  else []))"

definition retained :: "service \<Rightarrow> user \<Rightarrow> user list \<Rightarrow> found list" where
  "retained this u pool = concat (map (retained_entry this u) pool)"


section \<open>Example documents\<close>

text \<open>
  A user whose six traits all have the value \<open>v\<close>, on the free tier, with no lifestyle
  and no deal-breakers; a profile with the five required traits only; a user who declares
  smoking a deal-breaker and one who smokes; a match document between users \<open>A\<close> and
  \<open>B\<close>; a request.
\<close>

definition example_traits :: "real \<Rightarrow> (string \<rightharpoonup> real)" where
  "example_traits v = map_of [(''openness'', v), (''conscientiousness'', v), (''extraversion'', v),
                             (''agreeableness'', v), (''neuroticism'', v), (''emotionalIntelligence'', v)]"

definition example_user :: "string \<Rightarrow> real \<Rightarrow> user" where
  "example_user i v =
     \<lparr>uid = i, personalityTraits = Some (example_traits v), lifestyle = None, dealBreakers = None,
      hasKids = False, hasPets = False, subscriptionTier = Some ''free'',
      preferences = Some \<lparr>maxDistance = 25\<rparr>\<rparr>"

definition required_traits :: "real \<Rightarrow> (string \<rightharpoonup> real)" where
  "required_traits v = map_of [(''openness'', v), (''conscientiousness'', v), (''extraversion'', v),
                              (''agreeableness'', v), (''neuroticism'', v)]"

definition example_vetoer :: user where
  "example_vetoer =
     (example_user ''v'' 50)\<lparr>dealBreakers := Some \<lparr>db_smoking = True, db_hasKids = False, db_pets = False\<rparr>\<rparr>"

definition example_smoker :: user where
  "example_smoker = (example_user ''s'' 50)\<lparr>lifestyle := Some \<lparr>ls_smoking = True\<rparr>\<rparr>"

definition example_match :: "string option \<Rightarrow> string option \<Rightarrow> string \<Rightarrow> match_doc" where
  "example_match a1 a2 st =
     \<lparr>user1 = ''A'', user2 = ''B'', compatibilityScore = \<lparr>compatibility = Num 85, aiInsight = None\<rparr>,
      matchType = ''excellent'', user1Action = a1, user2Action = a2, status = st\<rparr>"

definition example_request :: request where
  "example_request = \<lparr>ip = ''10.0.0.1'', req_user = Some ''u1''\<rparr>"

text \<open>
  A receiver that, unlike the class, has an \<open>analyzeLifestyle\<close> method (answering 75 for
  every pair): it lets \<open>findMatches\<close> run past line 120 on a pool that is not empty.
\<close>

definition receiver_with_lifestyle :: service where
  "receiver_with_lifestyle =
     \<lparr>analyzeLifestyle = Some (\<lambda>_ _. Inr (Num 75)), insight = (\<lambda>_ _ _. None)\<rparr>"


section \<open>Rounding to a double at given values\<close>

lemma two_powr_neg: "(2::real) powr (- real n) = 1 / 2 ^ n"
  by (simp add: powr_minus powr_realpow inverse_eq_divide)

lemma binade_eq:
  assumes "2 powr of_int e \<le> \<bar>x\<bar>" "\<bar>x\<bar> < 2 powr of_int (e + 1)" "- 1022 \<le> e"
  shows "binade x = e"
proof -
  have "0 < \<bar>x\<bar>" using assms(1) powr_gt_zero[of 2 "of_int e"] by linarith
  then have "\<lfloor>log 2 \<bar>x\<bar>\<rfloor> = e"
    using assms(1,2) by (simp add: floor_log_eq_powr_iff)
  then show ?thesis using assms(3) by (simp add: binade_def)
qed

text \<open>A value in the binade \<open>[2 ^ k, 2 ^ (k + 1))\<close> is rounded on the grid of spacing \<open>2 ^ (k - 52)\<close>.\<close>

lemma rnd_up:
  assumes "2 ^ k \<le> \<bar>x\<bar>" "\<bar>x\<bar> < 2 ^ Suc k" "k \<le> 52"
  shows "rnd x = of_int (round_even (x * 2 ^ (52 - k))) / 2 ^ (52 - k)"
proof -
  have b: "binade x = int k"
    using assms(1,2) by (intro binade_eq) (simp_all add: powr_realpow powr_add)
  have "ulp x = 2 powr (- real (52 - k))"
    using assms(3) by (simp add: ulp_def b of_nat_diff)
  then have u: "ulp x = 1 / 2 ^ (52 - k)"
    by (simp only: two_powr_neg)
  have "x \<noteq> 0"
    using assms(1) zero_less_power[of "2::real" k] by (auto simp del: zero_less_power)
  then show ?thesis by (simp add: rnd_def u)
qed

text \<open>The same for a value in the binade \<open>[2 ^ - k, 2 ^ (1 - k))\<close>.\<close>

lemma rnd_down:
  assumes "1 \<le> \<bar>x\<bar> * 2 ^ k" "\<bar>x\<bar> * 2 ^ k < 2" "k \<le> 1022"
  shows "rnd x = of_int (round_even (x * 2 ^ (52 + k))) / 2 ^ (52 + k)"
proof -
  have "2 powr of_int (- int k) \<le> \<bar>x\<bar>"
    using assms(1) by (simp add: powr_minus powr_realpow field_simps)
  moreover have "\<bar>x\<bar> < 2 powr of_int (- int k + 1)"
    using assms(2) by (simp add: powr_diff powr_realpow field_simps)
  ultimately have b: "binade x = - int k"
    using assms(3) by (intro binade_eq) simp_all
  have "ulp x = 2 powr (- real (52 + k))"
    by (simp add: ulp_def b algebra_simps)
  then have u: "ulp x = 1 / 2 ^ (52 + k)"
    by (simp only: two_powr_neg)
  have "x \<noteq> 0" using assms(1) by auto
  then show ?thesis by (simp add: rnd_def u)
qed

lemma rnd_zero: "rnd 0 = 0"
  by (simp add: rnd_def)

text \<open>
  The roundings that occur in the runs below: of the decimal literals of the weights, of
  the partial sums of the weights and of the terms of the blend.
\<close>

lemma rnd_value_0:
  "rnd (1 / 10) = 3602879701896397 / 36028797018963968"
  by (subst rnd_down[of _ 4]) (simp_all add: round_even_def)

lemma rnd_value_1:
  "rnd (3602879701896397 / 36028797018963968) = 3602879701896397 / 36028797018963968"
  by (subst rnd_down[of _ 4]) (simp_all add: round_even_def)

lemma rnd_value_2:
  "rnd (5404319552844595 / 36028797018963968) = 5404319552844595 / 36028797018963968"
  by (subst rnd_down[of _ 3]) (simp_all add: round_even_def)

lemma rnd_value_3:
  "rnd (3 / 20) = 5404319552844595 / 36028797018963968"
  by (subst rnd_down[of _ 3]) (simp_all add: round_even_def)

lemma rnd_value_4:
  "rnd (3242591731706757 / 18014398509481984) = 3242591731706757 / 18014398509481984"
  by (subst rnd_down[of _ 3]) (simp_all add: round_even_def)

lemma rnd_value_5:
  "rnd (9 / 50) = 3242591731706757 / 18014398509481984"
  by (subst rnd_down[of _ 3]) (simp_all add: round_even_def)

lemma rnd_value_6:
  "rnd (1 / 5) = 3602879701896397 / 18014398509481984"
  by (subst rnd_down[of _ 3]) (simp_all add: round_even_def)

lemma rnd_value_7:
  "rnd (3602879701896397 / 18014398509481984) = 3602879701896397 / 18014398509481984"
  by (subst rnd_down[of _ 3]) (simp_all add: round_even_def)

lemma rnd_value_8:
  "rnd (11 / 50) = 7926335344172073 / 36028797018963968"
  by (subst rnd_down[of _ 3]) (simp_all add: round_even_def)

lemma rnd_value_9:
  "rnd (7926335344172073 / 36028797018963968) = 7926335344172073 / 36028797018963968"
  by (subst rnd_down[of _ 3]) (simp_all add: round_even_def)

lemma rnd_value_10:
  "rnd (3 / 10) = 5404319552844595 / 18014398509481984"
  by (subst rnd_down[of _ 2]) (simp_all add: round_even_def)

lemma rnd_value_11:
  "rnd (12610078956637389 / 36028797018963968) = 3152519739159347 / 9007199254740992"
  by (subst rnd_down[of _ 2]) (simp_all add: round_even_def)

lemma rnd_value_12:
  "rnd (9547631210025451 / 18014398509481984) = 2386907802506363 / 4503599627370496"
  by (subst rnd_down[of _ 1]) (simp_all add: round_even_def)

lemma rnd_value_13:
  "rnd (3 / 5) = 5404319552844595 / 9007199254740992"
  by (subst rnd_down[of _ 1]) (simp_all add: round_even_def)

lemma rnd_value_14:
  "rnd (27021597764222977 / 36028797018963968) = 3 / 4"
  by (subst rnd_down[of _ 1]) (simp_all add: round_even_def)

lemma rnd_value_15:
  "rnd (32425917317067571 / 36028797018963968) = 8106479329266893 / 9007199254740992"
  by (subst rnd_down[of _ 1]) (simp_all add: round_even_def)

lemma rnd_value_16:
  "rnd 1 = 1"
  by (subst rnd_up[of 0]) (simp_all add: round_even_def)

lemma rnd_value_17:
  "rnd (36028797018963969 / 36028797018963968) = 1"
  by (subst rnd_up[of 0]) (simp_all add: round_even_def)

lemma rnd_value_18:
  "rnd 10 = 10"
  by (subst rnd_up[of 3]) (simp_all add: round_even_def)

lemma rnd_value_19:
  "rnd (90071992547409925 / 9007199254740992) = 10"
  by (subst rnd_up[of 3]) (simp_all add: round_even_def)

lemma rnd_value_20:
  "rnd (405323966463344625 / 18014398509481984) = 45 / 2"
  by (subst rnd_up[of 4]) (simp_all add: round_even_def)

lemma rnd_value_21:
  "rnd (135107988821114875 / 4503599627370496) = 30"
  by (subst rnd_up[of 4]) (simp_all add: round_even_def)

lemma rnd_value_22:
  "rnd 30 = 30"
  by (subst rnd_up[of 4]) (simp_all add: round_even_def)

lemma rnd_value_23:
  "rnd (135107988821114875 / 2251799813685248) = 60"
  by (subst rnd_up[of 5]) (simp_all add: round_even_def)

lemma rnd_value_24:
  "rnd 60 = 60"
  by (subst rnd_up[of 5]) (simp_all add: round_even_def)

lemma rnd_value_25:
  "rnd (165 / 2) = 165 / 2"
  by (subst rnd_up[of 6]) (simp_all add: round_even_def)

lemma rnd_value_26:
  "rnd 90 = 90"
  by (subst rnd_up[of 6]) (simp_all add: round_even_def)

lemma rnd_value_27:
  "rnd (185 / 2) = 185 / 2"
  by (subst rnd_up[of 6]) (simp_all add: round_even_def)

lemma rnd_value_28:
  "rnd 100 = 100"
  by (subst rnd_up[of 6]) (simp_all add: round_even_def)

lemmas rnd_values = rnd_value_0 rnd_value_1 rnd_value_2 rnd_value_3 rnd_value_4
  rnd_value_5 rnd_value_6 rnd_value_7 rnd_value_8 rnd_value_9 rnd_value_10 rnd_value_11
  rnd_value_12 rnd_value_13 rnd_value_14 rnd_value_15 rnd_value_16 rnd_value_17
  rnd_value_18 rnd_value_19 rnd_value_20 rnd_value_21 rnd_value_22 rnd_value_23
  rnd_value_24 rnd_value_25 rnd_value_26 rnd_value_27 rnd_value_28

lemma js_add_NaN: "js_add a NaN = NaN"
  by (cases a) simp_all

lemma js_sub_NaN: "js_sub a NaN = NaN"
  by (cases a) simp_all

lemma js_mul_NaN: "js_mul a NaN = NaN"
  by (cases a) simp_all

lemma js_max_NaN: "js_max a NaN = NaN"
  by (cases a) simp_all


section \<open>Rate limiter: the sliding window\<close>

lemma rateLimiter_admit:
  assumes "int (length (filter (\<lambda>time. time > now - w) (case requests (request_key req) of None \<Rightarrow> [] | Some ts \<Rightarrow> ts))) < m"
  shows "rateLimiter m w requests req now =
           (Next, requests(request_key req \<mapsto>
              filter (\<lambda>time. time > now - w) (case requests (request_key req) of None \<Rightarrow> [] | Some ts \<Rightarrow> ts) @ [now]))"
  using assms by (simp add: rateLimiter_def Let_def)

lemma rateLimiter_deny:
  assumes "int (length (filter (\<lambda>time. time > now - w) (case requests (request_key req) of None \<Rightarrow> [] | Some ts \<Rightarrow> ts))) \<ge> m"
  shows "rateLimiter m w requests req now = (TooManyRequests (- ((- w) div 1000)), requests)"
  using assms by (simp add: rateLimiter_def Let_def)

text \<open>
  Claim C7, as stated: of four requests of one key within 1000 ms the fourth is denied.
  It fails at the boundary: requests at 0, 100, 200 and 1000 ms lie within 1000 ms, and
  the fourth is admitted, because the filter keeps only the timestamps greater than
  \<open>now - windowMs\<close> and so drops the one at 0.
\<close>

theorem rateLimiter_admits_fourth_at_boundary:
  "rateLimiter 3 1000 Map.empty example_request 0
     = (Next, [''10.0.0.1u1'' \<mapsto> [0]])
   \<and> rateLimiter 3 1000 [''10.0.0.1u1'' \<mapsto> [0]] example_request 100
     = (Next, [''10.0.0.1u1'' \<mapsto> [0, 100]])
   \<and> rateLimiter 3 1000 [''10.0.0.1u1'' \<mapsto> [0, 100]] example_request 200
     = (Next, [''10.0.0.1u1'' \<mapsto> [0, 100, 200]])
   \<and> rateLimiter 3 1000 [''10.0.0.1u1'' \<mapsto> [0, 100, 200]] example_request 1000
     = (Next, [''10.0.0.1u1'' \<mapsto> [100, 200, 1000]])"
  by (simp add: rateLimiter_def request_key_def example_request_def Let_def)

text \<open>
  Claim C7, amended. With \<open>maxRequests = 3\<close> and \<open>windowMs = 1000\<close>, on a limiter that
  has recorded nothing for the key, three requests at \<open>t1 \<le> t2 \<le> t3 < t1 + 1000\<close> are
  admitted and recorded. A fourth request at \<open>t4 \<ge> t3\<close> is denied, with the record left
  as it was, when it comes less than 1000 ms after the first (\<open>t4 < t1 + 1000\<close>); from
  exactly 1000 ms on it is admitted, the timestamps not greater than \<open>t4 - 1000\<close> being
  dropped. After a denial, a request at a time \<open>t5\<close> with \<open>t3 \<le> t5 - 1000\<close> is admitted.
\<close>

theorem rateLimiter_sliding_window:
  assumes fresh: "requests (request_key req) = None"
    and order: "t1 \<le> t2" "t2 \<le> t3" "t3 \<le> t4"
    and first_three: "t3 < t1 + 1000"
    and later: "t3 + 1000 \<le> t5"
  shows "rateLimiter 3 1000 requests req t1
           = (Next, requests(request_key req \<mapsto> [t1]))
       \<and> rateLimiter 3 1000 (requests(request_key req \<mapsto> [t1])) req t2
           = (Next, requests(request_key req \<mapsto> [t1, t2]))
       \<and> rateLimiter 3 1000 (requests(request_key req \<mapsto> [t1, t2])) req t3
           = (Next, requests(request_key req \<mapsto> [t1, t2, t3]))
       \<and> (t4 < t1 + 1000 \<longrightarrow>
            rateLimiter 3 1000 (requests(request_key req \<mapsto> [t1, t2, t3])) req t4
              = (TooManyRequests 1, requests(request_key req \<mapsto> [t1, t2, t3])))
       \<and> (t1 + 1000 \<le> t4 \<longrightarrow>
            rateLimiter 3 1000 (requests(request_key req \<mapsto> [t1, t2, t3])) req t4
              = (Next, requests(request_key req \<mapsto>
                   filter (\<lambda>time. time > t4 - 1000) [t1, t2, t3] @ [t4])))
       \<and> rateLimiter 3 1000 (requests(request_key req \<mapsto> [t1, t2, t3])) req t5
           = (Next, requests(request_key req \<mapsto> [t5]))"
proof -
  have s1: "rateLimiter 3 1000 requests req t1 = (Next, requests(request_key req \<mapsto> [t1]))"
    using fresh by (simp add: rateLimiter_admit)
  have s2: "rateLimiter 3 1000 (requests(request_key req \<mapsto> [t1])) req t2
              = (Next, requests(request_key req \<mapsto> [t1, t2]))"
    using order first_three by (simp add: rateLimiter_admit)
  have s3: "rateLimiter 3 1000 (requests(request_key req \<mapsto> [t1, t2])) req t3
              = (Next, requests(request_key req \<mapsto> [t1, t2, t3]))"
    using order first_three by (simp add: rateLimiter_admit)
  have s4: "rateLimiter 3 1000 (requests(request_key req \<mapsto> [t1, t2, t3])) req t4
              = (TooManyRequests 1, requests(request_key req \<mapsto> [t1, t2, t3]))"
    if "t4 < t1 + 1000"
    using order that by (simp add: rateLimiter_deny)
  have s4': "rateLimiter 3 1000 (requests(request_key req \<mapsto> [t1, t2, t3])) req t4
               = (Next, requests(request_key req \<mapsto>
                    filter (\<lambda>time. time > t4 - 1000) [t1, t2, t3] @ [t4]))"
    if "t1 + 1000 \<le> t4"
    using that by (simp add: rateLimiter_admit)
  have s5: "rateLimiter 3 1000 (requests(request_key req \<mapsto> [t1, t2, t3])) req t5
              = (Next, requests(request_key req \<mapsto> [t5]))"
    using order later by (simp add: rateLimiter_admit)
  from s1 s2 s3 s4 s4' s5 show ?thesis by simp
qed

theorem rateLimiter_sliding_window_witness:
  "rateLimiter 3 1000 Map.empty example_request 0
     = (Next, [''10.0.0.1u1'' \<mapsto> [0]])
   \<and> rateLimiter 3 1000 [''10.0.0.1u1'' \<mapsto> [0, 100, 200]] example_request 999
     = (TooManyRequests 1, [''10.0.0.1u1'' \<mapsto> [0, 100, 200]])
   \<and> rateLimiter 3 1000 [''10.0.0.1u1'' \<mapsto> [0, 100, 200]] example_request 1100
     = (Next, [''10.0.0.1u1'' \<mapsto> [200, 1100]])
   \<and> rateLimiter 3 1000 [''10.0.0.1u1'' \<mapsto> [0, 100, 200]] example_request 1200
     = (Next, [''10.0.0.1u1'' \<mapsto> [1200]])"
  using rateLimiter_sliding_window [of Map.empty example_request 0 100 200 999 1200]
    rateLimiter_sliding_window [of Map.empty example_request 0 100 200 1100 1200]
  by (simp add: request_key_def example_request_def)


section \<open>Compatibility evaluation\<close>

lemma error_is_TypeError: "e = TypeError"
  by (cases e) simp

text \<open>
  Claim C1. The claim is that \<open>calculateCompatibility\<close> returns a result for every pair
  of structurally valid profiles. On an instance of the class as declared, the call of
  \<open>this.analyzeLifestyle\<close> throws for every pair of users, valid or not: the evaluation
  never returns a result.
\<close>

theorem calculateCompatibility_throws:
  "calculateCompatibility (MatchingService ai) u1 u2 = Inl TypeError"
  by (simp add: calculateCompatibility_def MatchingService_def error_is_TypeError split: sum.split)


lemma calculateCompatibility_no_method:
  "analyzeLifestyle this = None \<Longrightarrow> calculateCompatibility this u1 u2 = Inl TypeError"
  by (simp add: calculateCompatibility_def error_is_TypeError split: sum.split)

lemma checkDealBreakers_veto:
  "checkDealBreakers a b = (if veto_triggered a b then Num 0 else Num 100)"
  by (auto simp add: checkDealBreakers_def veto_triggered_def declares_def no_dealBreakers_def Let_def
      split: option.splits)

lemma example_user_sel:
  "uid (example_user i v) = i"
  "personalityTraits (example_user i v) = Some (example_traits v)"
  "lifestyle (example_user i v) = None"
  "dealBreakers (example_user i v) = None"
  "hasKids (example_user i v) = False"
  "hasPets (example_user i v) = False"
  "subscriptionTier (example_user i v) = Some ''free''"
  "preferences (example_user i v) = Some \<lparr>maxDistance = 25\<rparr>"
  by (simp_all add: example_user_def)

lemma example_pair_veto: "veto_triggered example_vetoer example_smoker"
  by (simp add: veto_triggered_def declares_def example_vetoer_def example_smoker_def
        example_user_sel lifestyle_smoking_def)

lemma example_pair_no_veto: "\<not> veto_triggered (example_user ''a'' 50) (example_user ''b'' 50)"
  by (simp add: veto_triggered_def declares_def example_user_sel lifestyle_smoking_def)

text \<open>The blend of line 123 at the corners of the score range, in double arithmetic.\<close>

lemma blend_values:
  "blend (Num 100) (Num 100) (Num 0) = Num 90"
  "blend (Num 100) (Num 100) (Num 100) = Num 100"
  "blend (Num 100) (Num 0) (Num 0) = Num 60"
  "blend (Num 0) (Num 100) (Num 0) = Num 30"
  "blend (Num 0) (Num 0) (Num 100) = Num 10"
  by (simp_all add: blend_def lit_def double_of_def Let_def rnd_zero rnd_values)

lemma blend_zero_term:
  "blend p l (Num 0) = js_add (js_add (js_mul p (lit 0.6)) (js_mul l (lit 0.3))) (Num 0)"
  by (simp add: blend_def lit_def double_of_def Let_def rnd_zero rnd_values)

text \<open>
  Claim C4, as stated: a triggered veto makes the final compatibility floor out even when
  the personality and lifestyle scores are maximal. It fails: for a seeker who vetoes
  smoking and a candidate who smokes the deal-breaker score is 0, and the blended score
  of line 123 for the maximal scores 100 and 100 is 90, above the threshold of 70 under
  which discovery drops a candidate. Nor does a run of \<open>calculateCompatibility\<close> on the
  class as declared yield a floored score for the pair: it throws.
\<close>

theorem veto_does_not_floor:
  "veto_triggered example_vetoer example_smoker
   \<and> checkDealBreakers example_vetoer example_smoker = Num 0
   \<and> blend (Num 100) (Num 100) (checkDealBreakers example_vetoer example_smoker) = Num 90
   \<and> js_gt (Num 90) (Num 70)
   \<and> calculateCompatibility (MatchingService (\<lambda>_ _ _. None)) example_vetoer example_smoker
       = Inl TypeError"
  by (simp add: example_pair_veto checkDealBreakers_veto blend_values
        calculateCompatibility_no_method MatchingService_def)

text \<open>
  Claim C4, amended. Whenever a deal-breaker flag declared by either party meets the
  other's corresponding fact, the deal-breaker score is 0, and it is 100 otherwise. The
  blended score of line 123 gives it the weight 0.1 only: under a veto the blend of a
  personality score \<open>p\<close> and a lifestyle score \<open>l\<close> is \<open>p * 0.6 + l * 0.3 + 0\<close>, which
  for the maximal scores is 90, against 100 without a veto; the weights 0.6, 0.3 and 0.1
  show at the corners (60, 30 and 10).
\<close>

theorem veto_removes_only_its_weight:
  "(veto_triggered a b \<longrightarrow>
      checkDealBreakers a b = Num 0
      \<and> blend p l (checkDealBreakers a b)
          = js_add (js_add (js_mul p (lit 0.6)) (js_mul l (lit 0.3))) (Num 0)
      \<and> blend (Num 100) (Num 100) (checkDealBreakers a b) = Num 90)
   \<and> (\<not> veto_triggered a b \<longrightarrow>
      checkDealBreakers a b = Num 100
      \<and> blend (Num 100) (Num 100) (checkDealBreakers a b) = Num 100)
   \<and> blend (Num 100) (Num 0) (Num 0) = Num 60
   \<and> blend (Num 0) (Num 100) (Num 0) = Num 30
   \<and> blend (Num 0) (Num 0) (Num 100) = Num 10"
  using blend_zero_term[of p l] by (simp add: checkDealBreakers_veto blend_values)

theorem veto_removes_only_its_weight_witness:
  "veto_triggered example_vetoer example_smoker
   \<and> checkDealBreakers example_vetoer example_smoker = Num 0
   \<and> blend (Num 100) (Num 100) (checkDealBreakers example_vetoer example_smoker) = Num 90
   \<and> \<not> veto_triggered (example_user ''a'' 50) (example_user ''b'' 50)
   \<and> checkDealBreakers (example_user ''a'' 50) (example_user ''b'' 50) = Num 100
   \<and> blend (Num 100) (Num 100) (checkDealBreakers (example_user ''a'' 50) (example_user ''b'' 50))
       = Num 100"
  using veto_removes_only_its_weight [of example_vetoer example_smoker "Num 100" "Num 100"]
    veto_removes_only_its_weight [of "example_user ''a'' 50" "example_user ''b'' 50" "Num 100" "Num 100"]
    example_pair_veto example_pair_no_veto
  by (simp add: blend_values)


section \<open>Personality scoring with absent traits\<close>

lemma traits_loop_NaN: "traits_loop t1 t2 ws NaN = NaN"
  by (induction ws) auto

lemma traits_loop_missing:
  assumes "(trait, w) \<in> set ws" and "t1 trait = None \<or> t2 trait = None"
  shows "traits_loop t1 t2 ws score = NaN"
  using assms
proof (induction ws arbitrary: score)
  case Nil
  then show ?case by simp
next
  case (Cons a ws)
  obtain tr wt where a: "a = (tr, wt)" by (cases a)
  show ?case
  proof (cases "a = (trait, w)")
    case True
    with Cons.prems(2) a have "js_sub (to_number (t1 tr)) (to_number (t2 tr)) = NaN"
      by (auto simp add: to_number_def js_sub_NaN)
    with a show ?thesis by (simp add: traits_loop_NaN js_add_NaN)
  next
    case False
    with Cons.prems have "(trait, w) \<in> set ws" by simp
    with Cons.IH Cons.prems(2) a show ?thesis by simp
  qed
qed

text \<open>
  In \<open>MatchingService.analyzePersonalityTraits\<close> any weighted trait absent from either
  profile turns the whole score into \<open>NaN\<close>.
\<close>

lemma analyzePersonalityTraits_missing:
  assumes "(trait, w) \<in> set weights" and "t1 trait = None \<or> t2 trait = None"
  shows "analyzePersonalityTraits (Some t1) (Some t2) = Inr NaN"
  using traits_loop_missing[of trait w weights t1 t2 "Num 0"] assms
  by (simp add: analyzePersonalityTraits_def)

text \<open>
  \<open>AIService.calculatePersonalityCompatibility\<close> does substitute 50 for an absent trait:
  its score is the score of the profile with the trait set to 50.
\<close>

lemma personality_loop_absent_left:
  "t1 trait = None \<Longrightarrow>
     personality_loop t1 t2 ws acc = personality_loop (t1(trait \<mapsto> 50)) t2 ws acc"
  by (induction ws arbitrary: acc) (auto simp add: or_default_def Let_def)

lemma personality_loop_absent_right:
  "t2 trait = None \<Longrightarrow>
     personality_loop t1 t2 ws acc = personality_loop t1 (t2(trait \<mapsto> 50)) ws acc"
  by (induction ws arbitrary: acc) (auto simp add: or_default_def Let_def)

lemma calculatePersonalityCompatibility_absent_is_50:
  "t1 trait = None \<Longrightarrow>
     calculatePersonalityCompatibility (Some t1) (Some t2)
       = calculatePersonalityCompatibility (Some (t1(trait \<mapsto> 50))) (Some t2)"
  "t2 trait = None \<Longrightarrow>
     calculatePersonalityCompatibility (Some t1) (Some t2)
       = calculatePersonalityCompatibility (Some t1) (Some (t2(trait \<mapsto> 50)))"
  using personality_loop_absent_left[of t1 trait t2 weights_ai "Num 0"]
    personality_loop_absent_right[of t2 trait t1 weights_ai "Num 0"]
  by (simp_all add: calculatePersonalityCompatibility_def)

text \<open>
  Claim C6. The claim is that the personality scorer treats an absent trait as 50 and
  still returns a number in [0, 100]. \<open>MatchingService.analyzePersonalityTraits\<close> does
  not: for two profiles that have the five required traits and lack the optional
  \<open>emotionalIntelligence\<close>, it returns \<open>NaN\<close>.
\<close>

theorem analyzePersonalityTraits_absent_optional:
  "analyzePersonalityTraits (Some (required_traits 50)) (Some (required_traits 50)) = Inr NaN"
  by (simp add: analyzePersonalityTraits_def weights_def required_traits_def to_number_def
        js_add_NaN js_sub_NaN)


section \<open>Discovery\<close>

lemma findMatches_loop_retained:
  "findMatches_loop this u pool acc = Inr ms \<Longrightarrow> ms = acc @ retained this u pool"
proof (induction pool arbitrary: acc)
  case Nil
  then show ?case by (simp add: retained_def)
next
  case (Cons p ps)
  show ?case
  proof (cases "calculateCompatibility this u p")
    case (Inl e)
    with Cons.prems show ?thesis by simp
  next
    case (Inr c)
    show ?thesis
    proof (cases "js_gt (compatibility c) (Num 70)")
      case True
      with Inr Cons.prems
      have "ms = (acc @ [\<lparr>found_user = p, found_compatibility = compatibility c,
                          found_aiInsight = aiInsight c\<rparr>]) @ retained this u ps"
        by (intro Cons.IH) simp
      with Inr True show ?thesis by (simp add: retained_def retained_entry_def)
    next
      case False
      with Inr Cons.prems have "ms = acc @ retained this u ps"
        by (intro Cons.IH) simp
      with Inr False show ?thesis by (simp add: retained_def retained_entry_def)
    qed
  qed
qed

lemma findMatches_Inr:
  assumes "findMatches this fetched pool limit = Inr result"
  obtains u where "fetched = Some u"
    and "result = slice0 (array_sort by_compatibility (retained this u pool))
                    (case limit of None \<Rightarrow> 10 | Some l \<Rightarrow> l)"
  using assms
  by (auto simp add: findMatches_def Let_def split: option.splits sum.splits
           dest!: findMatches_loop_retained)

text \<open>
  Claim C10. A call of \<open>findMatches\<close> without a limit argument behaves as the call with
  limit 10, and a sequence it returns has at most 10 elements, for every receiver,
  seeker and pool.
\<close>

theorem findMatches_default_limit:
  assumes "findMatches this fetched pool None = Inr result"
  shows "findMatches this fetched pool (Some 10) = Inr result \<and> length result \<le> 10"
proof
  from assms show "findMatches this fetched pool (Some 10) = Inr result"
    by (simp add: findMatches_def)
  from assms show "length result \<le> 10"
    by (rule findMatches_Inr) (simp add: slice0_def)
qed

lemma eval_personality_same:
  "analyzePersonalityTraits (Some (example_traits v)) (Some (example_traits v)) = Inr (Num 100)"
  by (simp add: analyzePersonalityTraits_def weights_def example_traits_def to_number_def
        lit_def double_of_def Let_def rnd_zero rnd_values)

lemma eval_compat_same:
  "calculateCompatibility receiver_with_lifestyle (example_user i v) (example_user j v)
     = Inr \<lparr>compatibility = Num 92.5, aiInsight = None\<rparr>"
  by (simp add: calculateCompatibility_def receiver_with_lifestyle_def example_user_sel
        eval_personality_same checkDealBreakers_veto veto_triggered_def declares_def
        lifestyle_smoking_def blend_def lit_def double_of_def Let_def rnd_zero rnd_values)

theorem findMatches_default_limit_witness:
  "\<exists>result.
     findMatches receiver_with_lifestyle (Some (example_user ''s'' 50))
       (map (\<lambda>i. example_user i 50)
          [''c01'', ''c02'', ''c03'', ''c04'', ''c05'', ''c06'', ''c07'', ''c08'', ''c09'', ''c10'', ''c11''])
       None = Inr result
     \<and> length result = 10"
proof -
  have run: "findMatches receiver_with_lifestyle (Some (example_user ''s'' 50))
       (map (\<lambda>i. example_user i 50)
          [''c01'', ''c02'', ''c03'', ''c04'', ''c05'', ''c06'', ''c07'', ''c08'', ''c09'', ''c10'', ''c11''])
       None
     = Inr (map (\<lambda>i. \<lparr>found_user = example_user i 50, found_compatibility = Num 92.5,
                        found_aiInsight = None\<rparr>)
          [''c01'', ''c02'', ''c03'', ''c04'', ''c05'', ''c06'', ''c07'', ''c08'', ''c09'', ''c10''])"
    by (simp add: findMatches_def example_user_sel eval_compat_same array_sort_def
          by_compatibility_def slice0_def double_of_def rnd_zero)
  from findMatches_default_limit[OF run] run show ?thesis by simp
qed

text \<open>
  Claim C8. The claim is that discovery returns, for every seeker and pool, the evaluated
  candidates with a score above 70, ranked and truncated. On an instance of the class as
  declared \<open>findMatches\<close> returns no sequence for any pool that is not empty: the
  evaluation of the first candidate throws.
\<close>

theorem findMatches_throws_on_candidates:
  "findMatches (MatchingService ai) fetched (p # ps) limit = Inl TypeError"
  by (simp add: findMatches_def calculateCompatibility_no_method MatchingService_def
        split: option.split)


section \<open>The match record\<close>

text \<open>On a numeric operand the conditional chain realises the four bands.\<close>

lemma matchTypeOf_number:
  "(matchTypeOf (JNumber (Num x)) = ''perfect'' \<longleftrightarrow> 90 \<le> x)
   \<and> (matchTypeOf (JNumber (Num x)) = ''excellent'' \<longleftrightarrow> 80 \<le> x \<and> x < 90)
   \<and> (matchTypeOf (JNumber (Num x)) = ''good'' \<longleftrightarrow> 70 \<le> x \<and> x < 80)
   \<and> (matchTypeOf (JNumber (Num x)) = ''potential'' \<longleftrightarrow> x < 70)"
  by (auto simp add: matchTypeOf_def)

text \<open>
  The operand on line 48 is the whole result object, not its \<open>compatibility\<close> field:
  whatever the score, the chain would yield potential.
\<close>

lemma matchTypeOf_object: "matchType (newMatch defaults userId targetUserId score) = ''potential''"
  by (simp add: newMatch_def matchTypeOf_def)

text \<open>
  Claim C5. The claim is that a match record is created with the band of its score:
  perfect from 90, excellent from 80, good from 70. On the first action between two
  users the handler creates no record and assigns no band: the call on line 43 throws,
  for every receiver, and the handler answers 500.
\<close>

theorem action_route_first_contact_fails:
  "action_route this defaults None ''A'' ''B'' action = Inl ServerError"
  by (simp add: action_route_def calculateCompatibility_def analyzePersonalityTraits_def
        document_of_id_def)

text \<open>
  Claim C2. The claim is that the state is mutual whenever both stored actions are like
  or super_like. With a stored super_like of \<open>A\<close>, a like of \<open>B\<close> and also a super_like
  of \<open>B\<close> are recorded and the status stays pending.
\<close>

theorem super_like_never_mutual:
  "applyAction (example_match (Some ''super_like'') None ''pending'') ''B'' ''like''
     = example_match (Some ''super_like'') (Some ''like'') ''pending''
   \<and> applyAction (example_match (Some ''super_like'') None ''pending'') ''B'' ''super_like''
     = example_match (Some ''super_like'') (Some ''super_like'') ''pending''"
  by (simp add: applyAction_def example_match_def)

text \<open>
  Claim C3, as stated: no action changes a rejected record to pending or mutual. It
  fails: \<open>A\<close> has liked, \<open>B\<close> has passed and the record is rejected; a like of \<open>B\<close>
  makes it mutual.
\<close>

theorem rejected_then_like_is_mutual:
  "status (example_match (Some ''like'') (Some ''pass'') ''rejected'') = ''rejected''
   \<and> status (applyAction (example_match (Some ''like'') (Some ''pass'') ''rejected'') ''B'' ''like'')
       = ''mutual''"
  by (simp add: applyAction_def example_match_def)

text \<open>
  Claim C3, amended. For every match record whose state is rejected and every action, the
  action is recorded in the slot of the acting user and the other slot is left as it
  was; the state after it is never pending; it is mutual exactly when the action is
  like and the other slot already holds like, and rejected otherwise.
\<close>

theorem rejected_never_pending:
  assumes "status m = ''rejected''"
  shows "status (applyAction m userId action) \<noteq> ''pending''
       \<and> (status (applyAction m userId action) = ''mutual''
            \<or> status (applyAction m userId action) = ''rejected'')
       \<and> (user1 m = userId \<longrightarrow>
            user1Action (applyAction m userId action) = Some action
            \<and> user2Action (applyAction m userId action) = user2Action m
            \<and> (status (applyAction m userId action) = ''mutual''
                 \<longleftrightarrow> action = ''like'' \<and> user2Action m = Some ''like''))
       \<and> (user1 m \<noteq> userId \<longrightarrow>
            user2Action (applyAction m userId action) = Some action
            \<and> user1Action (applyAction m userId action) = user1Action m
            \<and> (status (applyAction m userId action) = ''mutual''
                 \<longleftrightarrow> action = ''like'' \<and> user1Action m = Some ''like''))
       \<and> applyAction m userId action
           = (if user1 m = userId
              then m\<lparr>user1Action := Some action,
                     status := (if action = ''like'' \<and> user2Action m = Some ''like''
                                then ''mutual'' else ''rejected'')\<rparr>
              else m\<lparr>user2Action := Some action,
                     status := (if action = ''like'' \<and> user1Action m = Some ''like''
                                then ''mutual'' else ''rejected'')\<rparr>)"
  using assms by (auto simp add: applyAction_def Let_def)

theorem rejected_never_pending_witness:
  "status (example_match (Some ''pass'') (Some ''like'') ''rejected'') = ''rejected''
   \<and> user1Action (applyAction (example_match (Some ''pass'') (Some ''like'') ''rejected'') ''A'' ''like'')
       = Some ''like''
   \<and> status (applyAction (example_match (Some ''pass'') (Some ''like'') ''rejected'') ''A'' ''like'')
       = ''mutual''
   \<and> status (example_match (Some ''pass'') None ''rejected'') = ''rejected''
   \<and> user2Action (applyAction (example_match (Some ''pass'') None ''rejected'') ''B'' ''like'')
       = Some ''like''
   \<and> status (applyAction (example_match (Some ''pass'') None ''rejected'') ''B'' ''like'')
       = ''rejected''"
  using rejected_never_pending
          [of "example_match (Some ''pass'') (Some ''like'') ''rejected''" "''A''" "''like''"]
    rejected_never_pending
          [of "example_match (Some ''pass'') None ''rejected''" "''B''" "''like''"]
  by (simp add: example_match_def applyAction_def)

end
